theory Spec2Isabelle
  imports Complex_Main
begin

section \<open>Data model of mosaic.py\<close>

text \<open>
  Python floats are idealised as real numbers throughout: \<open>math.tan\<close>, \<open>math.atan\<close>,
  \<open>math.sin\<close>, \<open>math.cos\<close> are the real functions, \<open>math.radians\<close> and
  \<open>math.degrees\<close> scale by \<open>pi / 180\<close> and \<open>180 / pi\<close>. Every exception the
  source can raise is a value of \<open>error\<close>.
\<close>

datatype error = NameError | ZeroDivisionError | TypeError | IOError

text \<open>\<open>DroneImage = collections.namedtuple('DroneImage', 'filename lat long altitude yaw pitch roll')\<close>\<close>

record DroneImage =
  filename :: string
  lat :: real
  long :: real
  altitude :: real
  yaw :: real
  pitch :: real
  roll :: real

type_synonym point = "real \<times> real"

definition IMAGE_WIDTH :: real where "IMAGE_WIDTH = 4000"
definition IMAGE_HEIGHT :: real where "IMAGE_HEIGHT = 3000"
definition WIDTH_MM :: real where "WIDTH_MM = 36"
definition HEIGHT_MM :: real where "HEIGHT_MM = 26"
definition FOCAL_LENGTH :: real where "FOCAL_LENGTH = 20"

section \<open>Distances in feet\<close>

text \<open>
  \<open>vincenty(point1, point2).ft\<close> belongs to the geopy library, not to this repository:
  it is the parameter \<open>vincenty_ft\<close> of every function that reaches it.
\<close>

definition distance_between_latlong_points_in_feet ::
  "(point \<Rightarrow> point \<Rightarrow> real) \<Rightarrow> point \<Rightarrow> point \<Rightarrow> real" where
  "distance_between_latlong_points_in_feet vincenty_ft point1 point2 = vincenty_ft point1 point2"

definition horiz_distance_between_latlong_points_in_feet ::
  "(point \<Rightarrow> point \<Rightarrow> real) \<Rightarrow> point \<Rightarrow> point \<Rightarrow> real" where
  "horiz_distance_between_latlong_points_in_feet vincenty_ft point1 point2 =
     distance_between_latlong_points_in_feet vincenty_ft (38, snd point1) (38, snd point2)"

definition vert_distance_between_latlong_points_in_feet ::
  "(point \<Rightarrow> point \<Rightarrow> real) \<Rightarrow> point \<Rightarrow> point \<Rightarrow> real" where
  "vert_distance_between_latlong_points_in_feet vincenty_ft point1 point2 =
     distance_between_latlong_points_in_feet vincenty_ft (fst point1, -123) (fst point2, -123)"

section \<open>Angle of view\<close>

definition radians :: "real \<Rightarrow> real" where
  "radians d = d * pi / 180"

definition degrees :: "real \<Rightarrow> real" where
  "degrees r = r * 180 / pi"

text \<open>
  \<open>float(side_mm)/float(focal_len_mm)\<close> and \<open>float(side_mm)/float(2*focal_len_mm)\<close>
  raise ZeroDivisionError for a zero focal length.
\<close>

definition angle_of_view :: "real \<Rightarrow> real \<Rightarrow> error + real" where
  "angle_of_view side_mm focal_len_mm =
     (if focal_len_mm = 0 then Inl ZeroDivisionError
      else let angle_radians = 2 * arctan (side_mm / (2 * focal_len_mm));
               angle_degrees = degrees angle_radians
           in Inr angle_degrees)"

definition vertical_angle_of_view :: "error + real" where
  "vertical_angle_of_view = angle_of_view HEIGHT_MM FOCAL_LENGTH"

definition horizontal_angle_of_view :: "error + real" where
  "horizontal_angle_of_view = angle_of_view WIDTH_MM FOCAL_LENGTH"

definition meters_to_feet :: "real \<Rightarrow> real" where
  "meters_to_feet meters = 3.28084 * meters"

definition feet_to_meters :: "real \<Rightarrow> real" where
  "feet_to_meters feet = 0.3048 * feet"

section \<open>Bounds of the mosaic\<close>

text \<open>
  The loop of \<open>_get_min_max_long_and_lat\<close>: the four variables start as \<open>None\<close>; each
  image updates them in the order min_long, max_long, min_lat, max_lat.
\<close>

type_synonym bounds = "real option \<times> real option \<times> real option \<times> real option"

fun min_max_step :: "bounds \<Rightarrow> DroneImage \<Rightarrow> bounds" where
  "min_max_step (min_long, max_long, min_lat, max_lat) img =
     ((case min_long of None \<Rightarrow> Some (long img)
        | Some m \<Rightarrow> if long img < m then Some (long img) else Some m),
      (case max_long of None \<Rightarrow> Some (long img)
        | Some m \<Rightarrow> if long img > m then Some (long img) else Some m),
      (case min_lat of None \<Rightarrow> Some (lat img)
        | Some m \<Rightarrow> if lat img < m then Some (lat img) else Some m),
      (case max_lat of None \<Rightarrow> Some (lat img)
        | Some m \<Rightarrow> if lat img > m then Some (lat img) else Some m))"

definition get_min_max_long_and_lat :: "DroneImage list \<Rightarrow> bounds" where
  "get_min_max_long_and_lat self_images = foldl min_max_step (None, None, None, None) self_images"

type_synonym corner = "real option \<times> real option"

definition get_mosaic_lat_long_corners :: "DroneImage list \<Rightarrow> corner \<times> corner" where
  "get_mosaic_lat_long_corners self_images =
     (case get_min_max_long_and_lat self_images of
        (min_long, max_long, min_lat, max_lat) \<Rightarrow> ((max_lat, min_long), (min_lat, max_long)))"

section \<open>Scale\<close>

text \<open>
  \<open>_calculate_pixels_per_foot\<close> (lines 355-376). Line 364 reads
  \<open>sum([image.altitude for image in self.images])/len(images)\<close>: the divisor is the
  length of the module-level name \<open>images\<close>, which only the script under
  \<open>if __name__ == "__main__"\<close> binds. \<open>global_images\<close> is that binding: \<open>None\<close>
  when the name is unbound (NameError), \<open>Some\<close> of the list otherwise. A zero divisor
  on line 364 or line 374 raises ZeroDivisionError. Altitudes are floats (section 6 of
  the specification), so the division on line 364 is not Python 2's integer division.
\<close>

definition calculate_pixels_per_foot ::
  "DroneImage list option \<Rightarrow> DroneImage list \<Rightarrow> error + real" where
  "calculate_pixels_per_foot global_images self_images =
     (case global_images of
        None \<Rightarrow> Inl NameError
      | Some glob \<Rightarrow>
          if length glob = 0 then Inl ZeroDivisionError
          else
            let average_altitude_meters =
                  sum_list (map altitude self_images) / real (length glob)
            in case horizontal_angle_of_view of
                 Inl e \<Rightarrow> Inl e
               | Inr horiz_angle_of_view \<Rightarrow>
                   let half_horiz_angle_of_view = horiz_angle_of_view / 2;
                       image_width_in_meters =
                         2 * tan (radians half_horiz_angle_of_view) * average_altitude_meters;
                       image_width_in_feet = meters_to_feet image_width_in_meters
                   in if image_width_in_feet = 0 then Inl ZeroDivisionError
                      else Inr (IMAGE_WIDTH / image_width_in_feet))"

text \<open>
  The scale as section 4.3 of the specification words it: the image pixel width over
  the ground width in feet, the ground width being twice the tangent of half the
  horizontal field of view times the arithmetic mean of the altitudes of the images.
  Half the field of view \<open>2 * atan (side / (2 * focal))\<close> of section 4.2 is
  \<open>atan (side / (2 * focal))\<close>.
\<close>

definition mean_altitude :: "DroneImage list \<Rightarrow> real" where
  "mean_altitude imgs = sum_list (map altitude imgs) / real (length imgs)"

definition computeScale_spec :: "DroneImage list \<Rightarrow> real" where
  "computeScale_spec imgs =
     IMAGE_WIDTH / meters_to_feet (2 * tan (arctan (WIDTH_MM / (2 * FOCAL_LENGTH))) * mean_altitude imgs)"

section \<open>Canvas and raster capability\<close>

text \<open>
  \<open>int(x)\<close> on a float truncates toward zero.
\<close>

definition pyint :: "real \<Rightarrow> int" where
  "pyint x = (if 0 \<le> x then \<lfloor>x\<rfloor> else \<lceil>x\<rceil>)"

text \<open>
  The PIL image the mosaic is pasted into: its mode, size and fill colour as given to
  \<open>Image.new\<close>, and the pastes made so far (file, rotation in degrees, top-left corner).
\<close>

record Canvas =
  cv_mode :: string
  cv_width :: int
  cv_height :: int
  cv_color :: string
  cv_pastes :: "(string \<times> real \<times> int \<times> int) list"

text \<open>
  What the program does to its surroundings: the buffers \<open>Image.new\<close> allocated, the
  lines printed, and the two raster operations of PIL the placement depends on, the size
  of the image file \<open>Image.open\<close> reads (\<open>None\<close>: the file cannot be opened) and the
  size of an image after \<open>rotate(angle, expand=True)\<close>.
\<close>

record World =
  allocated :: "Canvas list"
  printed :: "(string \<times> int \<times> int \<times> real) list"
  open_size :: "string \<Rightarrow> (int \<times> int) option"
  rotated_size :: "int \<times> int \<Rightarrow> real \<Rightarrow> int \<times> int"

definition Image_new :: "string \<Rightarrow> int \<times> int \<Rightarrow> string \<Rightarrow> World \<Rightarrow> Canvas \<times> World" where
  "Image_new md sz col w =
     (let cv = \<lparr>cv_mode = md, cv_width = fst sz, cv_height = snd sz, cv_color = col, cv_pastes = []\<rparr>
      in (cv, w\<lparr>allocated := allocated w @ [cv]\<rparr>))"

record Mosaic =
  images :: "DroneImage list"
  top_left_lat_long :: corner
  bottom_right_lat_long :: corner
  pixels_per_foot :: real
  mosaic_image :: Canvas

text \<open>
  \<open>_create_mosaic_image\<close> (lines 451-469), reading the corners and the scale of
  \<open>self\<close>. A corner that is still \<open>None\<close> cannot be measured by the distance
  primitive (TypeError).
\<close>

definition create_mosaic_image ::
  "(point \<Rightarrow> point \<Rightarrow> real) \<Rightarrow> corner \<Rightarrow> corner \<Rightarrow> real \<Rightarrow> World \<Rightarrow> (error + Canvas) \<times> World" where
  "create_mosaic_image vincenty_ft top_left bottom_right ppf w =
     (case (top_left, bottom_right) of
        ((Some tlat, Some tlong), (Some blat, Some blong)) \<Rightarrow>
          let horiz_feet_between_edge_images =
                horiz_distance_between_latlong_points_in_feet vincenty_ft (tlat, tlong) (blat, blong);
              vert_feet_between_edge_images =
                vert_distance_between_latlong_points_in_feet vincenty_ft (tlat, tlong) (blat, blong);
              horiz_pixels = ppf * horiz_feet_between_edge_images + 4000;
              vert_pixels = ppf * vert_feet_between_edge_images + 3000;
              (cv, w') = Image_new ''RGBA'' (pyint horiz_pixels, pyint vert_pixels) ''white'' w
          in (Inr cv, w')
      | _ \<Rightarrow> (Inl TypeError, w))"

text \<open>\<open>Mosaic.__init__\<close> (lines 143-169): corners, then scale, then canvas.\<close>

definition Mosaic_init ::
  "(point \<Rightarrow> point \<Rightarrow> real) \<Rightarrow> DroneImage list option \<Rightarrow> World \<Rightarrow> DroneImage list
     \<Rightarrow> (error + Mosaic) \<times> World" where
  "Mosaic_init vincenty_ft global_images w imgs =
     (case get_mosaic_lat_long_corners imgs of
        (top_left, bottom_right) \<Rightarrow>
          (case calculate_pixels_per_foot global_images imgs of
             Inl e \<Rightarrow> (Inl e, w)
           | Inr ppf \<Rightarrow>
               (case create_mosaic_image vincenty_ft top_left bottom_right ppf w of
                  (Inl e, w') \<Rightarrow> (Inl e, w')
                | (Inr cv, w') \<Rightarrow>
                    (Inr \<lparr>images = imgs, top_left_lat_long = top_left,
                          bottom_right_lat_long = bottom_right, pixels_per_foot = ppf,
                          mosaic_image = cv\<rparr>, w'))))"

section \<open>Placement\<close>

text \<open>
  \<open>math.tan\<close> returns a (very large) float at 90 degrees, where the real tangent is
  undefined and \<open>tan\<close> of HOL is 0: no property below depends on the value of an
  offset at such an angle.
\<close>

definition calculate_vertical_offset :: "Mosaic \<Rightarrow> DroneImage \<Rightarrow> real" where
  "calculate_vertical_offset self img =
     (let offset_in_meters = altitude img * tan (radians (pitch img));
          offset_in_feet = meters_to_feet offset_in_meters;
          offset_in_pixels = pixels_per_foot self * offset_in_feet
      in offset_in_pixels)"

definition calculate_horizontal_offset :: "Mosaic \<Rightarrow> DroneImage \<Rightarrow> real" where
  "calculate_horizontal_offset self img =
     (let offset_in_meters = altitude img * tan (radians (roll img));
          offset_in_feet = meters_to_feet offset_in_meters;
          offset_in_pixels = pixels_per_foot self * offset_in_feet
      in offset_in_pixels)"

text \<open>
  \<open>add_image_to_mosaic\<close> (lines 172-267) in its steps. Lines 197-215: the centre
  before any adjustment.
\<close>

definition provisional_center ::
  "(point \<Rightarrow> point \<Rightarrow> real) \<Rightarrow> Mosaic \<Rightarrow> DroneImage \<Rightarrow> error + int \<times> int" where
  "provisional_center vincenty_ft self img =
     (case top_left_lat_long self of
        (Some tlat, Some tlong) \<Rightarrow>
          let imagepos = (lat img, long img);
              feet_from_left =
                horiz_distance_between_latlong_points_in_feet vincenty_ft imagepos (tlat, tlong);
              pixels_from_left = feet_from_left * pixels_per_foot self;
              feet_from_top =
                vert_distance_between_latlong_points_in_feet vincenty_ft imagepos (tlat, tlong);
              pixels_from_top = feet_from_top * pixels_per_foot self
          in Inr (2000 + pyint pixels_from_left, 1500 + pyint pixels_from_top)
      | _ \<Rightarrow> Inl TypeError)"

text \<open>
  Lines 240-242: the yaw step on the vertical and the horizontal offset; the result is
  (horizontal_offset_pixels, vertical_offset_pixels) after it.
\<close>

definition yaw_step :: "real \<Rightarrow> real \<Rightarrow> real \<Rightarrow> real \<times> real" where
  "yaw_step yaw_degrees vertical_offset_pixels horizontal_offset_pixels =
     (let xshift = vertical_offset_pixels * sin (radians yaw_degrees);
          vertical_offset_pixels' = vertical_offset_pixels * cos (radians yaw_degrees);
          horizontal_offset_pixels' = horizontal_offset_pixels - xshift
      in (horizontal_offset_pixels', vertical_offset_pixels'))"

text \<open>Lines 197-250: the centre (x, y) of the image on the mosaic.\<close>

definition placement_center ::
  "(point \<Rightarrow> point \<Rightarrow> real) \<Rightarrow> Mosaic \<Rightarrow> DroneImage \<Rightarrow> error + real \<times> real" where
  "placement_center vincenty_ft self img =
     (case provisional_center vincenty_ft self img of
        Inl e \<Rightarrow> Inl e
      | Inr (x, y) \<Rightarrow>
          let vertical_offset_pixels = calculate_vertical_offset self img;
              horizontal_offset_pixels = calculate_horizontal_offset self img;
              (horizontal_offset_pixels', vertical_offset_pixels') =
                yaw_step (yaw img) vertical_offset_pixels horizontal_offset_pixels
          in Inr (real_of_int x + horizontal_offset_pixels',
                  real_of_int y + vertical_offset_pixels'))"

text \<open>
  \<open>_paste_image\<close> (lines 379-398): the top-left corner is the centre less half the
  size of the pasted image, in Python 2 integer division.
\<close>

definition paste_image :: "Mosaic \<Rightarrow> string \<times> real \<times> int \<times> int \<Rightarrow> int \<Rightarrow> int \<Rightarrow> Mosaic" where
  "paste_image self rot x y =
     (case rot of (file, angle, size0, size1) \<Rightarrow>
        let top_left_xpos = x - size0 div 2;
            top_left_ypos = y - size1 div 2;
            cv = mosaic_image self
        in self\<lparr>mosaic_image :=
                  cv\<lparr>cv_pastes := cv_pastes cv @ [(file, angle, top_left_xpos, top_left_ypos)]\<rparr>\<rparr>)"

text \<open>
  Lines 252-267: print the centre, open the file (IOError when it cannot be opened),
  rotate it by minus the yaw with expansion, paste it centred at (int(x), int(y)).
\<close>

definition add_image_to_mosaic ::
  "(point \<Rightarrow> point \<Rightarrow> real) \<Rightarrow> Mosaic \<Rightarrow> World \<Rightarrow> DroneImage \<Rightarrow> (error + Mosaic) \<times> World" where
  "add_image_to_mosaic vincenty_ft self w img =
     (case placement_center vincenty_ft self img of
        Inl e \<Rightarrow> (Inl e, w)
      | Inr (x, y) \<Rightarrow>
          let w1 = w\<lparr>printed := printed w @ [(filename img, pyint x, pyint y, yaw img)]\<rparr>
          in case open_size w1 (filename img) of
               None \<Rightarrow> (Inl IOError, w1)
             | Some sz \<Rightarrow>
                 let angle = - 1 * yaw img;
                     (size0, size1) = rotated_size w1 sz angle
                 in (Inr (paste_image self (filename img, angle, size0, size1) (pyint x) (pyint y)), w1))"

section \<open>Concrete inputs\<close>

text \<open>
  A distance function to run the definitions on concrete inputs: feet per degree of
  latitude and of longitude near 38 degrees north, on a locally flat earth. It is zero
  on equal points and never negative, as a geodesic distance is.
\<close>

definition planar_feet :: "point \<Rightarrow> point \<Rightarrow> real" where
  "planar_feet p q = 364000 * \<bar>fst p - fst q\<bar> + 288000 * \<bar>snd p - snd q\<bar>"

definition photo :: "real \<Rightarrow> real \<Rightarrow> real \<Rightarrow> real \<Rightarrow> real \<Rightarrow> real \<Rightarrow> DroneImage" where
  "photo la lo al y p r =
     \<lparr>filename = ''a.jpg'', lat = la, long = lo, altitude = al, yaw = y, pitch = p, roll = r\<rparr>"

definition world0 :: World where
  "world0 = \<lparr>allocated = [], printed = [], open_size = (\<lambda>f. Some (4000, 3000)),
             rotated_size = (\<lambda>sz angle. sz)\<rparr>"

definition two_photos :: "DroneImage list" where
  "two_photos = [photo 38 (-123) 100 0 0 0, photo 38.001 (-123) 100 0 0 0]"

definition four_photos :: "DroneImage list" where
  "four_photos = [photo 38 (-123) 100 0 0 0, photo 38.001 (-123) 100 0 0 0,
                  photo 38.002 (-123) 100 0 0 0, photo 38.003 (-123) 100 0 0 0]"

text \<open>
  The mosaic the constructor builds from \<open>two_photos\<close> with \<open>planar_feet\<close>: 364 feet
  between the two latitudes, 4000 / 590.5512 pixels per foot.
\<close>

definition two_photos_mosaic :: Mosaic where
  "two_photos_mosaic =
     \<lparr>images = two_photos, top_left_lat_long = (Some 38.001, Some (-123)),
      bottom_right_lat_long = (Some 38, Some (-123)), pixels_per_foot = 4000 / 590.5512,
      mosaic_image = \<lparr>cv_mode = ''RGBA'', cv_width = 4000, cv_height = 5465,
                      cv_color = ''white'', cv_pastes = []\<rparr>\<rparr>"

text \<open>Two images taken 100 m below the altitude reference, and their mosaic.\<close>

definition sunk_photos :: "DroneImage list" where
  "sunk_photos = [photo 38 (-123) (-100) 0 0 0, photo 38.001 (-122.999) (-100) 0 0 0]"

definition sunk_mosaic :: Mosaic where
  "sunk_mosaic =
     \<lparr>images = sunk_photos, top_left_lat_long = (Some 38.001, Some (-123)),
      bottom_right_lat_long = (Some 38, Some (-122.999)), pixels_per_foot = - (4000 / 590.5512),
      mosaic_image = \<lparr>cv_mode = ''RGBA'', cv_width = 2049, cv_height = 534,
                      cv_color = ''white'', cv_pastes = []\<rparr>\<rparr>"

section \<open>Properties of the bounds\<close>

lemma min_max_step_Some:
  "foldl min_max_step (Some a, Some b, Some c, Some d) imgs =
     (Some (fold min (map long imgs) a), Some (fold max (map long imgs) b),
      Some (fold min (map lat imgs) c), Some (fold max (map lat imgs) d))"
proof (induction imgs arbitrary: a b c d)
  case Nil
  show ?case by simp
next
  case (Cons i imgs)
  have "min_max_step (Some a, Some b, Some c, Some d) i =
          (Some (min (long i) a), Some (max (long i) b), Some (min (lat i) c), Some (max (lat i) d))"
    by (simp add: min_def max_def)
  then show ?case using Cons.IH by simp
qed

lemma get_min_max_nonempty:
  assumes "imgs \<noteq> []"
  shows "get_min_max_long_and_lat imgs =
     (Some (Min (long ` set imgs)), Some (Max (long ` set imgs)),
      Some (Min (lat ` set imgs)), Some (Max (lat ` set imgs)))"
proof -
  obtain i rest where im: "imgs = i # rest" using assms by (cases imgs) auto
  have first: "min_max_step (None, None, None, None) i =
      (Some (long i), Some (long i), Some (lat i), Some (lat i))" by simp
  have a: "fold min (map long rest) (long i) = Min (long ` set imgs)"
    unfolding im using Min.set_eq_fold [of "long i" "map long rest"] by simp
  have b: "fold max (map long rest) (long i) = Max (long ` set imgs)"
    unfolding im using Max.set_eq_fold [of "long i" "map long rest"] by simp
  have c: "fold min (map lat rest) (lat i) = Min (lat ` set imgs)"
    unfolding im using Min.set_eq_fold [of "lat i" "map lat rest"] by simp
  have d: "fold max (map lat rest) (lat i) = Max (lat ` set imgs)"
    unfolding im using Max.set_eq_fold [of "lat i" "map lat rest"] by simp
  have "get_min_max_long_and_lat imgs =
      foldl min_max_step (Some (long i), Some (long i), Some (lat i), Some (lat i)) rest"
    unfolding get_min_max_long_and_lat_def im using first by simp
  then show ?thesis using a b c d by (simp add: min_max_step_Some)
qed

lemma corners_nonempty:
  assumes "imgs \<noteq> []"
  shows "get_mosaic_lat_long_corners imgs =
     ((Some (Max (lat ` set imgs)), Some (Min (long ` set imgs))),
      (Some (Min (lat ` set imgs)), Some (Max (long ` set imgs))))"
  by (simp add: get_mosaic_lat_long_corners_def get_min_max_nonempty [OF assms])

text \<open>
  C9: the horizontal distance is the primitive applied to (38, longitude of point1) and
  (38, longitude of point2), so replacing either latitude leaves it unchanged; the
  vertical distance is the primitive applied to (latitude of point1, -123) and
  (latitude of point2, -123), so replacing either longitude leaves it unchanged.
\<close>

theorem distance_decomposition_noninterference:
  "horiz_distance_between_latlong_points_in_feet vincenty_ft (lat1, long1) (lat2, long2) =
     horiz_distance_between_latlong_points_in_feet vincenty_ft (lat1', long1) (lat2', long2)
   \<and> horiz_distance_between_latlong_points_in_feet vincenty_ft (lat1, long1) (lat2, long2) =
     distance_between_latlong_points_in_feet vincenty_ft (38, long1) (38, long2)
   \<and> vert_distance_between_latlong_points_in_feet vincenty_ft (lat1, long1) (lat2, long2) =
     vert_distance_between_latlong_points_in_feet vincenty_ft (lat1, long1') (lat2, long2')
   \<and> vert_distance_between_latlong_points_in_feet vincenty_ft (lat1, long1) (lat2, long2) =
     distance_between_latlong_points_in_feet vincenty_ft (lat1, -123) (lat2, -123)"
  by (simp add: horiz_distance_between_latlong_points_in_feet_def
      vert_distance_between_latlong_points_in_feet_def)

text \<open>
  C5: for a non-empty image list the corners are (maximum latitude, minimum longitude)
  and (minimum latitude, maximum longitude), and every image lies between them: its
  latitude is at most the top-left and at least the bottom-right latitude, its longitude
  at least the top-left and at most the bottom-right longitude.
\<close>

theorem corners_bound_every_image:
  assumes "imgs \<noteq> []"
  shows "get_mosaic_lat_long_corners imgs =
           ((Some (Max (lat ` set imgs)), Some (Min (long ` set imgs))),
            (Some (Min (lat ` set imgs)), Some (Max (long ` set imgs))))
         \<and> (\<forall>i \<in> set imgs.
               Min (lat ` set imgs) \<le> lat i \<and> lat i \<le> Max (lat ` set imgs)
             \<and> Min (long ` set imgs) \<le> long i \<and> long i \<le> Max (long ` set imgs))"
  using corners_nonempty [OF assms] by simp

theorem corners_bound_every_image_witness:
  "[photo 38 (-123) 100 0 0 0, photo 38.001 (-122.999) 100 0 0 0] \<noteq> []
   \<and> get_mosaic_lat_long_corners [photo 38 (-123) 100 0 0 0, photo 38.001 (-122.999) 100 0 0 0]
       = ((Some 38.001, Some (-123)), (Some 38, Some (-122.999)))"
  using corners_bound_every_image [of "[photo 38 (-123) 100 0 0 0, photo 38.001 (-122.999) 100 0 0 0]"]
  by (simp add: photo_def)

section \<open>Properties of the scale\<close>

lemma horizontal_angle_of_view_value:
  "horizontal_angle_of_view = Inr (degrees (2 * arctan (9 / 10)))"
  by (simp add: horizontal_angle_of_view_def angle_of_view_def WIDTH_MM_def FOCAL_LENGTH_def)

lemma calculate_pixels_per_foot_Some:
  "calculate_pixels_per_foot (Some glob) imgs =
     (if glob = [] then Inl ZeroDivisionError
      else if sum_list (map altitude imgs) = 0 then Inl ZeroDivisionError
      else Inr (4000 / (3.28084 * (2 * (9 / 10) * (sum_list (map altitude imgs) / real (length glob))))))"
  by (simp add: calculate_pixels_per_foot_def horizontal_angle_of_view_value Let_def
      radians_def degrees_def tan_arctan meters_to_feet_def IMAGE_WIDTH_def)

lemma calculate_pixels_per_foot_None:
  "calculate_pixels_per_foot None imgs = Inl NameError"
  by (simp add: calculate_pixels_per_foot_def)

lemma computeScale_spec_value:
  "computeScale_spec imgs = 4000 / (3.28084 * (2 * (9 / 10) * mean_altitude imgs))"
  by (simp add: computeScale_spec_def IMAGE_WIDTH_def WIDTH_MM_def FOCAL_LENGTH_def
      meters_to_feet_def tan_arctan)

text \<open>
  When the module-level list has the length of \<open>self.images\<close>, as in the script, the
  code computes the scale of the specification.
\<close>

lemma pixels_per_foot_agrees_when_lengths_agree:
  assumes "length glob = length imgs" and "sum_list (map altitude imgs) \<noteq> 0"
  shows "calculate_pixels_per_foot (Some glob) imgs = Inr (computeScale_spec imgs)"
proof -
  have "imgs \<noteq> []" using assms(2) by auto
  then have "glob \<noteq> []" using assms(1) by auto
  then show ?thesis
    using assms by (simp add: calculate_pixels_per_foot_Some computeScale_spec_value mean_altitude_def)
qed

lemma sum_altitude_pos:
  "imgs \<noteq> [] \<Longrightarrow> \<forall>i \<in> set imgs. 0 < altitude i \<Longrightarrow> 0 < sum_list (map altitude imgs)"
proof (induction imgs)
  case Nil
  then show ?case by simp
next
  case (Cons i imgs)
  show ?case
  proof (cases "imgs = []")
    case True
    then show ?thesis using Cons.prems by simp
  next
    case False
    then have "0 < sum_list (map altitude imgs)" using Cons by simp
    moreover have "0 < altitude i" using Cons.prems by simp
    ultimately show ?thesis by simp
  qed
qed

text \<open>
  With the module-level name bound to a non-empty list, positive altitudes give a
  positive scale.
\<close>

lemma pixels_per_foot_positive_when_bound:
  assumes "glob \<noteq> []" and "imgs \<noteq> []" and "\<forall>i \<in> set imgs. 0 < altitude i"
  shows "\<exists>v. calculate_pixels_per_foot (Some glob) imgs = Inr v \<and> 0 < v"
proof -
  have s: "0 < sum_list (map altitude imgs)" using sum_altitude_pos assms by blast
  have l: "0 < real (length glob)" using assms(1) by simp
  show ?thesis using s l assms(1) by (simp add: calculate_pixels_per_foot_Some)
qed

lemma pixels_per_foot_sign:
  assumes "calculate_pixels_per_foot g imgs = Inr v" and "\<forall>i \<in> set imgs. 0 < altitude i"
  shows "0 < v"
proof (cases g)
  case None
  then show ?thesis using assms by (simp add: calculate_pixels_per_foot_None)
next
  case (Some glob)
  have ne: "glob \<noteq> []" "sum_list (map altitude imgs) \<noteq> 0"
    using assms(1) Some by (auto simp: calculate_pixels_per_foot_Some split: if_splits)
  then have "imgs \<noteq> []" by auto
  then have s: "0 < sum_list (map altitude imgs)" using sum_altitude_pos assms(2) by blast
  have l: "0 < real (length glob)" using ne by simp
  show ?thesis using assms(1) Some ne s l by (auto simp: calculate_pixels_per_foot_Some)
qed

lemma corners_empty: "get_mosaic_lat_long_corners [] = ((None, None), (None, None))"
  by (simp add: get_mosaic_lat_long_corners_def get_min_max_long_and_lat_def)

lemma pixels_per_foot_empty:
  "calculate_pixels_per_foot g [] =
     Inl (case g of None \<Rightarrow> NameError | Some glob \<Rightarrow> ZeroDivisionError)"
  by (cases g) (simp_all add: calculate_pixels_per_foot_Some calculate_pixels_per_foot_None)

text \<open>
  C1: the claim that the scale is the image width over the ground width for the mean
  of the altitudes of \<open>self.images\<close> fails on the code, which divides the sum of the
  altitudes of \<open>self.images\<close> by the length of the module-level list. For two images
  at 100 m built while the module-level list holds four, the code returns twice the
  scale of the specification (4000 / 590.5512); with the module-level name unbound it
  raises NameError.
\<close>

theorem pixels_per_foot_divides_by_global_length:
  "calculate_pixels_per_foot (Some four_photos) two_photos = Inr (2 * computeScale_spec two_photos)
   \<and> computeScale_spec two_photos = 4000 / 590.5512
   \<and> calculate_pixels_per_foot None two_photos = Inl NameError"
  by (simp add: calculate_pixels_per_foot_Some calculate_pixels_per_foot_None
      computeScale_spec_value mean_altitude_def photo_def two_photos_def four_photos_def)

text \<open>
  C6: for one image at altitude 100 m, the scale is not computed when the module-level
  name \<open>images\<close> is unbound (NameError) or bound to an empty list (ZeroDivisionError).
\<close>

theorem pixels_per_foot_fails_without_global:
  "calculate_pixels_per_foot None [photo 38 (-123) 100 0 0 0] = Inl NameError
   \<and> calculate_pixels_per_foot (Some []) [photo 38 (-123) 100 0 0 0] = Inl ZeroDivisionError"
  by (simp add: calculate_pixels_per_foot_Some calculate_pixels_per_foot_None)

section \<open>Truncation to whole pixels\<close>

lemma pyint_of_int: "pyint (real_of_int n) = n"
  by (simp add: pyint_def)

lemma pyint_zero: "pyint 0 = 0"
  by (simp add: pyint_def)

lemma pyint_nonneg: "0 \<le> x \<Longrightarrow> 0 \<le> pyint x"
  by (simp add: pyint_def)

lemma pyint_ge_one: "1 \<le> x \<Longrightarrow> 1 \<le> pyint x"
  by (simp add: pyint_def le_floor_iff)

lemma pyint_add_margin:
  assumes "0 \<le> x" and "0 \<le> k"
  shows "pyint (x + real_of_int k) = pyint x + k"
  using assms by (simp add: pyint_def)

lemma pyint_close: "\<bar>real_of_int (pyint x) - x\<bar> < 1"
  unfolding pyint_def by (auto; linarith)

section \<open>Properties of the constructor\<close>

text \<open>
  C8: constructing a mosaic from an empty image list raises an error, whatever the
  module-level list is, and leaves the world as it was: no canvas has been allocated.
\<close>

theorem empty_image_list_fails_before_allocation:
  "Mosaic_init vincenty_ft global_images w [] =
     (Inl (case global_images of None \<Rightarrow> NameError | Some glob \<Rightarrow> ZeroDivisionError), w)
   \<and> allocated (snd (Mosaic_init vincenty_ft global_images w [])) = allocated w"
  by (simp add: Mosaic_init_def corners_empty pixels_per_foot_empty)

lemma Mosaic_init_Inr:
  assumes "Mosaic_init vincenty_ft g w imgs = (Inr m, w')"
  shows "imgs \<noteq> []"
    and "calculate_pixels_per_foot g imgs = Inr (pixels_per_foot m)"
    and "top_left_lat_long m = (Some (Max (lat ` set imgs)), Some (Min (long ` set imgs)))"
    and "bottom_right_lat_long m = (Some (Min (lat ` set imgs)), Some (Max (long ` set imgs)))"
    and "images m = imgs"
    and "mosaic_image m =
           \<lparr>cv_mode = ''RGBA'',
            cv_width = pyint (pixels_per_foot m *
               horiz_distance_between_latlong_points_in_feet vincenty_ft
                 (Max (lat ` set imgs), Min (long ` set imgs))
                 (Min (lat ` set imgs), Max (long ` set imgs)) + 4000),
            cv_height = pyint (pixels_per_foot m *
               vert_distance_between_latlong_points_in_feet vincenty_ft
                 (Max (lat ` set imgs), Min (long ` set imgs))
                 (Min (lat ` set imgs), Max (long ` set imgs)) + 3000),
            cv_color = ''white'', cv_pastes = []\<rparr>"
    and "w' = w\<lparr>allocated := allocated w @ [mosaic_image m]\<rparr>"
proof -
  show ne: "imgs \<noteq> []"
  proof
    assume "imgs = []"
    then show False using assms
      by (simp add: Mosaic_init_def corners_empty pixels_per_foot_empty)
  qed
  obtain ppf where ppf: "calculate_pixels_per_foot g imgs = Inr ppf"
    using assms by (cases "calculate_pixels_per_foot g imgs")
      (simp_all add: Mosaic_init_def split: prod.splits)
  have m: "m = \<lparr>images = imgs,
        top_left_lat_long = (Some (Max (lat ` set imgs)), Some (Min (long ` set imgs))),
        bottom_right_lat_long = (Some (Min (lat ` set imgs)), Some (Max (long ` set imgs))),
        pixels_per_foot = ppf,
        mosaic_image = fst (Image_new ''RGBA''
          (pyint (ppf * horiz_distance_between_latlong_points_in_feet vincenty_ft
                 (Max (lat ` set imgs), Min (long ` set imgs))
                 (Min (lat ` set imgs), Max (long ` set imgs)) + 4000),
           pyint (ppf * vert_distance_between_latlong_points_in_feet vincenty_ft
                 (Max (lat ` set imgs), Min (long ` set imgs))
                 (Min (lat ` set imgs), Max (long ` set imgs)) + 3000)) ''white'' w)\<rparr>"
    and w: "w' = snd (Image_new ''RGBA''
          (pyint (ppf * horiz_distance_between_latlong_points_in_feet vincenty_ft
                 (Max (lat ` set imgs), Min (long ` set imgs))
                 (Min (lat ` set imgs), Max (long ` set imgs)) + 4000),
           pyint (ppf * vert_distance_between_latlong_points_in_feet vincenty_ft
                 (Max (lat ` set imgs), Min (long ` set imgs))
                 (Min (lat ` set imgs), Max (long ` set imgs)) + 3000)) ''white'' w)"
    using assms ppf
    by (auto simp: Mosaic_init_def corners_nonempty [OF ne] create_mosaic_image_def Let_def
        split: prod.splits)
  show "calculate_pixels_per_foot g imgs = Inr (pixels_per_foot m)" using ppf m by simp
  show "top_left_lat_long m = (Some (Max (lat ` set imgs)), Some (Min (long ` set imgs)))"
    using m by simp
  show "bottom_right_lat_long m = (Some (Min (lat ` set imgs)), Some (Max (long ` set imgs)))"
    using m by simp
  show "images m = imgs" using m by simp
  show mi: "mosaic_image m =
           \<lparr>cv_mode = ''RGBA'',
            cv_width = pyint (pixels_per_foot m *
               horiz_distance_between_latlong_points_in_feet vincenty_ft
                 (Max (lat ` set imgs), Min (long ` set imgs))
                 (Min (lat ` set imgs), Max (long ` set imgs)) + 4000),
            cv_height = pyint (pixels_per_foot m *
               vert_distance_between_latlong_points_in_feet vincenty_ft
                 (Max (lat ` set imgs), Min (long ` set imgs))
                 (Min (lat ` set imgs), Max (long ` set imgs)) + 3000),
            cv_color = ''white'', cv_pastes = []\<rparr>"
    using m by (simp add: Image_new_def)
  show "w' = w\<lparr>allocated := allocated w @ [mosaic_image m]\<rparr>"
    using w m by (simp add: Image_new_def)
qed

text \<open>
  The constructor succeeds whenever the module-level list is not empty and the altitudes
  of the images do not sum to 0.
\<close>

lemma Mosaic_init_succeeds:
  assumes "glob \<noteq> []" and "imgs \<noteq> []" and "sum_list (map altitude imgs) \<noteq> 0"
  shows "\<exists>m w'. Mosaic_init vincenty_ft (Some glob) w imgs = (Inr m, w')"
  using assms
  by (simp add: Mosaic_init_def corners_nonempty calculate_pixels_per_foot_Some
      create_mosaic_image_def Image_new_def Let_def)

section \<open>Properties of the placement\<close>

lemma yaw_90: "yaw_step 90 v h = (h - v, 0)"
  by (simp add: yaw_step_def radians_def)

lemma yaw_0: "yaw_step 0 v h = (h, v)"
  by (simp add: yaw_step_def radians_def)

lemma offset_zero_pitch: "pitch img = 0 \<Longrightarrow> calculate_vertical_offset m img = 0"
  by (simp add: calculate_vertical_offset_def radians_def meters_to_feet_def)

lemma offset_zero_roll: "roll img = 0 \<Longrightarrow> calculate_horizontal_offset m img = 0"
  by (simp add: calculate_horizontal_offset_def radians_def meters_to_feet_def)

lemma level_placement:
  assumes "provisional_center vincenty_ft m img = Inr (x, y)" and "pitch img = 0" and "roll img = 0"
  shows "placement_center vincenty_ft m img = Inr (real_of_int x, real_of_int y)"
  using assms by (simp add: placement_center_def offset_zero_pitch offset_zero_roll yaw_step_def)

section \<open>The constructor on concrete inputs\<close>

lemma pyint_eqI: "real_of_int n \<le> x \<Longrightarrow> x < real_of_int n + 1 \<Longrightarrow> 0 \<le> x \<Longrightarrow> pyint x = n"
  by (simp add: pyint_def floor_unique)

lemma pyint_neg_eqI: "real_of_int n - 1 < x \<Longrightarrow> x \<le> real_of_int n \<Longrightarrow> x < 0 \<Longrightarrow> pyint x = n"
  by (simp add: pyint_def ceiling_unique)

lemma planar_feet_self: "planar_feet p p = 0"
  by (simp add: planar_feet_def)

lemma planar_feet_nonneg: "0 \<le> planar_feet p q"
  by (simp add: planar_feet_def)

lemma Mosaic_init_two_photos:
  "Mosaic_init planar_feet (Some two_photos) world0 two_photos =
     (Inr two_photos_mosaic, world0\<lparr>allocated := [mosaic_image two_photos_mosaic]\<rparr>)"
proof -
  have p: "calculate_pixels_per_foot (Some two_photos) two_photos = Inr (4000 / 590.5512)"
    by (simp add: calculate_pixels_per_foot_Some two_photos_def photo_def)
  have c: "get_mosaic_lat_long_corners two_photos =
      ((Some 38.001, Some (-123)), (Some 38, Some (-123)))"
    by (simp add: get_mosaic_lat_long_corners_def get_min_max_long_and_lat_def two_photos_def photo_def)
  have h: "pyint (4000 / 590.5512 * 364 + 3000) = 5465"
    by (rule pyint_eqI) simp_all
  have w: "pyint 4000 = 4000" using pyint_of_int [of 4000] by simp
  have cm: "create_mosaic_image planar_feet (Some 38.001, Some (-123)) (Some 38, Some (-123))
      (4000 / 590.5512) world0 =
      (Inr (mosaic_image two_photos_mosaic), world0\<lparr>allocated := [mosaic_image two_photos_mosaic]\<rparr>)"
    using h w
    by (simp add: create_mosaic_image_def Image_new_def Let_def two_photos_mosaic_def world0_def
        horiz_distance_between_latlong_points_in_feet_def
        vert_distance_between_latlong_points_in_feet_def
        distance_between_latlong_points_in_feet_def planar_feet_def)
  show ?thesis
    by (simp only: Mosaic_init_def p c cm prod.case sum.case) (simp add: two_photos_mosaic_def)
qed

lemma Mosaic_init_sunk_photos:
  "Mosaic_init planar_feet (Some sunk_photos) world0 sunk_photos =
     (Inr sunk_mosaic, world0\<lparr>allocated := [mosaic_image sunk_mosaic]\<rparr>)"
proof -
  have p: "calculate_pixels_per_foot (Some sunk_photos) sunk_photos = Inr (- (4000 / 590.5512))"
    by (simp add: calculate_pixels_per_foot_Some sunk_photos_def photo_def)
  have c: "get_mosaic_lat_long_corners sunk_photos =
      ((Some 38.001, Some (-123)), (Some 38, Some (-122.999)))"
    by (simp add: get_mosaic_lat_long_corners_def get_min_max_long_and_lat_def sunk_photos_def photo_def)
  have h: "pyint (- (4000 / 590.5512) * 364 + 3000) = 534"
    by (rule pyint_eqI) simp_all
  have w: "pyint (- (4000 / 590.5512) * 288 + 4000) = 2049"
    by (rule pyint_eqI) simp_all
  have cm: "create_mosaic_image planar_feet (Some 38.001, Some (-123)) (Some 38, Some (-122.999))
      (- (4000 / 590.5512)) world0 =
      (Inr (mosaic_image sunk_mosaic), world0\<lparr>allocated := [mosaic_image sunk_mosaic]\<rparr>)"
    using h w
    by (simp add: create_mosaic_image_def Image_new_def Let_def sunk_mosaic_def world0_def
        horiz_distance_between_latlong_points_in_feet_def
        vert_distance_between_latlong_points_in_feet_def
        distance_between_latlong_points_in_feet_def planar_feet_def)
  show ?thesis
    by (simp only: Mosaic_init_def p c cm prod.case sum.case) (simp add: sunk_mosaic_def)
qed

section \<open>Canvas, placement and ordering\<close>

text \<open>
  C7, as amended: the canvas a successful constructor allocates is an RGBA image filled
  with white, with nothing pasted yet. Its width is the truncation of the horizontal
  extent in pixels (corner-to-corner horizontal distance times pixels per foot) plus the
  image width 4000, its height the truncation of the vertical extent in pixels plus the
  image height 3000: within one pixel of extent plus margin, and exactly the whole
  pixels of the extent plus 4000 and plus 3000 when the extent is not negative.
\<close>

theorem canvas_exceeds_extent_by_margin:
  assumes "Mosaic_init vincenty_ft g w imgs = (Inr m, w')"
  shows "let top_left = (Max (lat ` set imgs), Min (long ` set imgs));
             bottom_right = (Min (lat ` set imgs), Max (long ` set imgs));
             horiz_extent = pixels_per_foot m *
               horiz_distance_between_latlong_points_in_feet vincenty_ft top_left bottom_right;
             vert_extent = pixels_per_foot m *
               vert_distance_between_latlong_points_in_feet vincenty_ft top_left bottom_right;
             cv = mosaic_image m
         in cv_mode cv = ''RGBA'' \<and> cv_color cv = ''white'' \<and> cv_pastes cv = []
          \<and> allocated w' = allocated w @ [cv]
          \<and> cv_width cv = pyint (horiz_extent + IMAGE_WIDTH)
          \<and> cv_height cv = pyint (vert_extent + IMAGE_HEIGHT)
          \<and> \<bar>real_of_int (cv_width cv) - (horiz_extent + 4000)\<bar> < 1
          \<and> \<bar>real_of_int (cv_height cv) - (vert_extent + 3000)\<bar> < 1
          \<and> (0 \<le> horiz_extent \<longrightarrow> cv_width cv = pyint horiz_extent + 4000)
          \<and> (0 \<le> vert_extent \<longrightarrow> cv_height cv = pyint vert_extent + 3000)"
proof -
  note mi = Mosaic_init_Inr(6) [OF assms]
  note w = Mosaic_init_Inr(7) [OF assms]
  have a: "\<And>x::real. 0 \<le> x \<Longrightarrow> pyint (x + 4000) = pyint x + 4000"
    using pyint_add_margin [of _ 4000] by simp
  have b: "\<And>x::real. 0 \<le> x \<Longrightarrow> pyint (x + 3000) = pyint x + 3000"
    using pyint_add_margin [of _ 3000] by simp
  show ?thesis
    by (simp add: mi w IMAGE_WIDTH_def IMAGE_HEIGHT_def a b Let_def pyint_close)
qed

theorem canvas_exceeds_extent_by_margin_witness:
  "Mosaic_init planar_feet (Some two_photos) world0 two_photos =
     (Inr two_photos_mosaic, world0\<lparr>allocated := [mosaic_image two_photos_mosaic]\<rparr>)
   \<and> 0 \<le> pixels_per_foot two_photos_mosaic *
         horiz_distance_between_latlong_points_in_feet planar_feet (38.001, -123) (38, -123)
   \<and> 0 \<le> pixels_per_foot two_photos_mosaic *
         vert_distance_between_latlong_points_in_feet planar_feet (38.001, -123) (38, -123)
   \<and> cv_mode (mosaic_image two_photos_mosaic) = ''RGBA''
   \<and> cv_color (mosaic_image two_photos_mosaic) = ''white''
   \<and> cv_width (mosaic_image two_photos_mosaic) =
       pyint (pixels_per_foot two_photos_mosaic *
         horiz_distance_between_latlong_points_in_feet planar_feet (38.001, -123) (38, -123)) + 4000
   \<and> cv_height (mosaic_image two_photos_mosaic) =
       pyint (pixels_per_foot two_photos_mosaic *
         vert_distance_between_latlong_points_in_feet planar_feet (38.001, -123) (38, -123)) + 3000
   \<and> cv_width (mosaic_image two_photos_mosaic) = 4000
   \<and> cv_height (mosaic_image two_photos_mosaic) = 5465"
proof -
  have mx: "Max (lat ` set two_photos) = 38.001" "Min (lat ` set two_photos) = 38"
    "Max (long ` set two_photos) = -123" "Min (long ` set two_photos) = -123"
    by (simp_all add: two_photos_def photo_def)
  have h: "0 \<le> pixels_per_foot two_photos_mosaic *
         horiz_distance_between_latlong_points_in_feet planar_feet (38.001, -123) (38, -123)"
    by (simp add: two_photos_mosaic_def planar_feet_nonneg
        horiz_distance_between_latlong_points_in_feet_def
        distance_between_latlong_points_in_feet_def)
  have v: "0 \<le> pixels_per_foot two_photos_mosaic *
         vert_distance_between_latlong_points_in_feet planar_feet (38.001, -123) (38, -123)"
    by (simp add: two_photos_mosaic_def planar_feet_nonneg
        vert_distance_between_latlong_points_in_feet_def
        distance_between_latlong_points_in_feet_def)
  have d: "cv_width (mosaic_image two_photos_mosaic) = 4000"
    "cv_height (mosaic_image two_photos_mosaic) = 5465"
    by (simp_all add: two_photos_mosaic_def)
  from canvas_exceeds_extent_by_margin [OF Mosaic_init_two_photos] h v
  have "cv_mode (mosaic_image two_photos_mosaic) = ''RGBA''
   \<and> cv_color (mosaic_image two_photos_mosaic) = ''white''
   \<and> cv_width (mosaic_image two_photos_mosaic) =
       pyint (pixels_per_foot two_photos_mosaic *
         horiz_distance_between_latlong_points_in_feet planar_feet (38.001, -123) (38, -123)) + 4000
   \<and> cv_height (mosaic_image two_photos_mosaic) =
       pyint (pixels_per_foot two_photos_mosaic *
         vert_distance_between_latlong_points_in_feet planar_feet (38.001, -123) (38, -123)) + 3000"
    unfolding Let_def mx by blast
  then show ?thesis using h v d Mosaic_init_two_photos by blast
qed

text \<open>
  C7 as stated fails. For \<open>sunk_photos\<close> the horizontal extent is 288 feet times
  - 4000 / 590.5512 pixels per foot, about - 1950.7 pixels: the canvas is 2049 wide,
  which is neither the whole pixels of the extent plus 4000 (2050) nor the extent plus
  4000. For \<open>two_photos\<close> the vertical extent is about 2465.5 pixels and the canvas
  is 5465 high, which is not the extent plus 3000.
\<close>

theorem truncated_canvas_misses_exact_margin:
  "fst (Mosaic_init planar_feet (Some sunk_photos) world0 sunk_photos) = Inr sunk_mosaic
   \<and> cv_width (mosaic_image sunk_mosaic) = 2049
   \<and> pyint (pixels_per_foot sunk_mosaic *
             horiz_distance_between_latlong_points_in_feet planar_feet
               (38.001, -123) (38, -122.999)) + 4000 = 2050
   \<and> real_of_int (cv_width (mosaic_image sunk_mosaic))
         - pixels_per_foot sunk_mosaic *
             horiz_distance_between_latlong_points_in_feet planar_feet
               (38.001, -123) (38, -122.999) \<noteq> 4000
   \<and> fst (Mosaic_init planar_feet (Some two_photos) world0 two_photos) = Inr two_photos_mosaic
   \<and> cv_height (mosaic_image two_photos_mosaic) = 5465
   \<and> real_of_int (cv_height (mosaic_image two_photos_mosaic))
         - pixels_per_foot two_photos_mosaic *
             vert_distance_between_latlong_points_in_feet planar_feet
               (38.001, -123) (38, -123) \<noteq> 3000"
proof -
  have h: "horiz_distance_between_latlong_points_in_feet planar_feet
             (38.001, -123) (38, -122.999) = 288"
    by (simp add: horiz_distance_between_latlong_points_in_feet_def
        distance_between_latlong_points_in_feet_def planar_feet_def)
  have v: "vert_distance_between_latlong_points_in_feet planar_feet
             (38.001, -123) (38, -123) = 364"
    by (simp add: vert_distance_between_latlong_points_in_feet_def
        distance_between_latlong_points_in_feet_def planar_feet_def)
  have ps: "pixels_per_foot sunk_mosaic = - (4000 / 590.5512)"
    and ws: "cv_width (mosaic_image sunk_mosaic) = 2049"
    by (simp_all add: sunk_mosaic_def)
  have pt: "pixels_per_foot two_photos_mosaic = 4000 / 590.5512"
    and ht: "cv_height (mosaic_image two_photos_mosaic) = 5465"
    by (simp_all add: two_photos_mosaic_def)
  have t: "pyint (- (4000 / 590.5512) * 288) = - 1950"
    by (rule pyint_neg_eqI) simp_all
  have a: "pyint (pixels_per_foot sunk_mosaic *
             horiz_distance_between_latlong_points_in_feet planar_feet
               (38.001, -123) (38, -122.999)) + 4000 = 2050"
    unfolding h ps using t by simp
  have b: "real_of_int (cv_width (mosaic_image sunk_mosaic))
         - pixels_per_foot sunk_mosaic *
             horiz_distance_between_latlong_points_in_feet planar_feet
               (38.001, -123) (38, -122.999) \<noteq> 4000"
    unfolding h ps ws by simp
  have c: "real_of_int (cv_height (mosaic_image two_photos_mosaic))
         - pixels_per_foot two_photos_mosaic *
             vert_distance_between_latlong_points_in_feet planar_feet
               (38.001, -123) (38, -123) \<noteq> 3000"
    unfolding v pt ht by simp
  show ?thesis
    using a b c ws ht by (simp add: Mosaic_init_sunk_photos Mosaic_init_two_photos)
qed

text \<open>
  C3: for an image with roll 0 and yaw 90 degrees, whatever its pitch, the yaw step
  turns the offsets (horizontal 0, vertical v) into (horizontal - v, vertical 0): the
  pitch offset moves the centre along the horizontal axis only.
\<close>

theorem yaw_quarter_turn_moves_pitch_offset_to_horizontal:
  assumes "roll img = 0" and "yaw img = 90"
  shows "yaw_step (yaw img) (calculate_vertical_offset m img) (calculate_horizontal_offset m img)
           = (- calculate_vertical_offset m img, 0)
       \<and> placement_center vincenty_ft m img =
           (case provisional_center vincenty_ft m img of
              Inl e \<Rightarrow> Inl e
            | Inr (x, y) \<Rightarrow> Inr (real_of_int x - calculate_vertical_offset m img, real_of_int y))"
  using assms
  by (simp add: yaw_90 offset_zero_roll placement_center_def split: sum.splits)

theorem yaw_quarter_turn_moves_pitch_offset_to_horizontal_witness:
  "roll (photo 38 (-123) 100 90 10 0) = 0 \<and> yaw (photo 38 (-123) 100 90 10 0) = 90
   \<and> yaw_step 90 (calculate_vertical_offset two_photos_mosaic (photo 38 (-123) 100 90 10 0))
        (calculate_horizontal_offset two_photos_mosaic (photo 38 (-123) 100 90 10 0))
      = (- calculate_vertical_offset two_photos_mosaic (photo 38 (-123) 100 90 10 0), 0)"
  using yaw_quarter_turn_moves_pitch_offset_to_horizontal
          [of "photo 38 (-123) 100 90 10 0" two_photos_mosaic planar_feet]
  by (simp add: photo_def)

text \<open>
  C2: on a mosaic built from a list of images, an image with yaw, pitch and roll 0 at
  the top-left corner (maximum latitude, minimum longitude of the list) has the
  provisional centre (2000, 1500), both offsets 0 after the yaw step, the final centre
  (2000, 1500), and is pasted unrotated, centred at (2000, 1500), given a distance
  primitive that is 0 between equal points.
\<close>

theorem identity_placement_at_top_left:
  assumes zero: "\<forall>p. vincenty_ft p p = 0"
    and init: "Mosaic_init vincenty_ft g w0 imgs = (Inr m, w1)"
    and pos: "lat img = Max (lat ` set imgs)" "long img = Min (long ` set imgs)"
    and level: "yaw img = 0" "pitch img = 0" "roll img = 0"
  shows "provisional_center vincenty_ft m img = Inr (2000, 1500)
       \<and> yaw_step (yaw img) (calculate_vertical_offset m img) (calculate_horizontal_offset m img)
           = (0, 0)
       \<and> placement_center vincenty_ft m img = Inr (2000, 1500)
       \<and> add_image_to_mosaic vincenty_ft m w img =
           (case open_size w (filename img) of
              None \<Rightarrow> (Inl IOError, w\<lparr>printed := printed w @ [(filename img, 2000, 1500, 0)]\<rparr>)
            | Some sz \<Rightarrow>
                (Inr (paste_image m
                       (filename img, 0, fst (rotated_size w sz 0), snd (rotated_size w sz 0))
                       2000 1500),
                 w\<lparr>printed := printed w @ [(filename img, 2000, 1500, 0)]\<rparr>))"
proof -
  note tl = Mosaic_init_Inr(3) [OF init]
  have p: "provisional_center vincenty_ft m img = Inr (2000, 1500)"
    using zero pos
    by (simp add: provisional_center_def tl horiz_distance_between_latlong_points_in_feet_def
        vert_distance_between_latlong_points_in_feet_def
        distance_between_latlong_points_in_feet_def pyint_zero)
  have y: "yaw_step (yaw img) (calculate_vertical_offset m img) (calculate_horizontal_offset m img)
           = (0, 0)"
    using level by (simp add: yaw_0 offset_zero_pitch offset_zero_roll)
  have c: "placement_center vincenty_ft m img = Inr (2000, 1500)"
    using p y by (simp add: placement_center_def)
  have "pyint 2000 = 2000" "pyint 1500 = 1500"
    using pyint_of_int [of 2000] pyint_of_int [of 1500] by simp_all
  then have a: "add_image_to_mosaic vincenty_ft m w img =
           (case open_size w (filename img) of
              None \<Rightarrow> (Inl IOError, w\<lparr>printed := printed w @ [(filename img, 2000, 1500, 0)]\<rparr>)
            | Some sz \<Rightarrow>
                (Inr (paste_image m
                       (filename img, 0, fst (rotated_size w sz 0), snd (rotated_size w sz 0))
                       2000 1500),
                 w\<lparr>printed := printed w @ [(filename img, 2000, 1500, 0)]\<rparr>))"
    using c level
    by (simp add: add_image_to_mosaic_def Let_def split: prod.splits option.splits)
  show ?thesis using p y c a by blast
qed

theorem identity_placement_at_top_left_witness:
  "(\<forall>p. planar_feet p p = 0)
   \<and> fst (Mosaic_init planar_feet (Some two_photos) world0 two_photos) = Inr two_photos_mosaic
   \<and> provisional_center planar_feet two_photos_mosaic (photo 38.001 (-123) 100 0 0 0) = Inr (2000, 1500)
   \<and> placement_center planar_feet two_photos_mosaic (photo 38.001 (-123) 100 0 0 0) = Inr (2000, 1500)
   \<and> fst (add_image_to_mosaic planar_feet two_photos_mosaic world0 (photo 38.001 (-123) 100 0 0 0)) =
        Inr (paste_image two_photos_mosaic (''a.jpg'', 0, 4000, 3000) 2000 1500)"
proof -
  have z: "\<forall>p. planar_feet p p = 0" by (simp add: planar_feet_self)
  have a: "lat (photo 38.001 (-123) 100 0 0 0) = Max (lat ` set two_photos)"
    by (simp add: two_photos_def photo_def)
  have b: "long (photo 38.001 (-123) 100 0 0 0) = Min (long ` set two_photos)"
    by (simp add: two_photos_def photo_def)
  have l: "yaw (photo 38.001 (-123) 100 0 0 0) = 0" "pitch (photo 38.001 (-123) 100 0 0 0) = 0"
    "roll (photo 38.001 (-123) 100 0 0 0) = 0" by (simp_all add: photo_def)
  have o: "open_size world0 (filename (photo 38.001 (-123) 100 0 0 0)) = Some (4000, 3000)"
    "rotated_size world0 (4000, 3000) 0 = (4000, 3000)"
    "filename (photo 38.001 (-123) 100 0 0 0) = ''a.jpg''"
    by (simp_all add: world0_def photo_def)
  from identity_placement_at_top_left [OF z Mosaic_init_two_photos a b l, of world0] o z
  show ?thesis by (simp add: Mosaic_init_two_photos)
qed

text \<open>
  C4: for a mosaic built from the two images at (38.0000, -123.0000) and
  (38.0010, -123.0000), both at altitude 100 m with yaw, pitch and roll 0, the image at
  the higher latitude is placed at a strictly smaller y, and the difference of the two
  y coordinates is within one pixel of the vertical distance between the two positions
  times pixels per foot. The distance primitive is taken to be 0 from (38.001, -123) to
  itself and at least one foot from (38, -123) to (38.001, -123).
\<close>

theorem higher_latitude_is_placed_above:
  assumes i1: "i1 = \<lparr>filename = f1, lat = 38, long = -123, altitude = 100,
                      yaw = 0, pitch = 0, roll = 0\<rparr>"
    and i2: "i2 = \<lparr>filename = f2, lat = 38.001, long = -123, altitude = 100,
                      yaw = 0, pitch = 0, roll = 0\<rparr>"
    and imgs: "imgs = [i1, i2] \<or> imgs = [i2, i1]"
    and init: "Mosaic_init vincenty_ft g w imgs = (Inr m, w')"
    and zero: "vincenty_ft (38.001, -123) (38.001, -123) = 0"
    and far: "1 \<le> vincenty_ft (38, -123) (38.001, -123)"
  shows "\<exists>x1 y1 x2 y2.
           placement_center vincenty_ft m i1 = Inr (x1, y1)
         \<and> placement_center vincenty_ft m i2 = Inr (x2, y2)
         \<and> y2 < y1 \<and> pyint y2 < pyint y1
         \<and> \<bar>(y1 - y2) - vert_distance_between_latlong_points_in_feet vincenty_ft
                            (lat i1, long i1) (lat i2, long i2) * pixels_per_foot m\<bar> < 1"
proof -
  have s: "set imgs = {i1, i2}" using imgs by auto
  have mx: "Max (lat ` set imgs) = 38.001" unfolding s by (simp add: i1 i2)
  have mn: "Min (long ` set imgs) = -123" unfolding s by (simp add: i1 i2)
  have tl: "top_left_lat_long m = (Some 38.001, Some (-123))"
    using Mosaic_init_Inr(3) [OF init] mx mn by simp
  have sum: "sum_list (map altitude imgs) = 200" using imgs by (auto simp: i1 i2)
  obtain glob where g: "g = Some glob" "glob \<noteq> []"
    using Mosaic_init_Inr(2) [OF init]
    by (cases g) (auto simp: calculate_pixels_per_foot_None calculate_pixels_per_foot_Some
        split: if_splits)
  have ppf: "pixels_per_foot m = 4000 / (3.28084 * (2 * (9 / 10) * (200 / real (length glob))))"
    using Mosaic_init_Inr(2) [OF init] g sum by (simp add: calculate_pixels_per_foot_Some)
  have len: "1 \<le> real (length glob)" using g(2) by (cases glob) auto
  have "pixels_per_foot m = (4000 / (3.28084 * (2 * (9 / 10) * 200))) * real (length glob)"
    unfolding ppf by simp
  moreover have "(1::real) \<le> 4000 / (3.28084 * (2 * (9 / 10) * 200))" by simp
  ultimately have big: "1 \<le> pixels_per_foot m"
    using len mult_mono [of 1 "4000 / (3.28084 * (2 * (9 / 10) * 200))" 1 "real (length glob)"]
    by simp
  define d where "d = vincenty_ft (38, -123) (38.001, -123)"
  have vd: "vert_distance_between_latlong_points_in_feet vincenty_ft
              (lat i1, long i1) (lat i2, long i2) = d"
    by (simp add: vert_distance_between_latlong_points_in_feet_def
        distance_between_latlong_points_in_feet_def i1 i2 d_def)
  have dp: "1 \<le> d * pixels_per_foot m"
    using far big mult_mono [of 1 d 1 "pixels_per_foot m"] by (simp add: d_def)
  obtain xa where p1: "provisional_center vincenty_ft m i1 = Inr (xa, 1500 + pyint (d * pixels_per_foot m))"
    by (simp add: provisional_center_def tl Let_def i1 d_def
        vert_distance_between_latlong_points_in_feet_def
        distance_between_latlong_points_in_feet_def)
  obtain xb where p2: "provisional_center vincenty_ft m i2 = Inr (xb, 1500)"
    using zero by (simp add: provisional_center_def tl Let_def i2 pyint_zero
        vert_distance_between_latlong_points_in_feet_def
        distance_between_latlong_points_in_feet_def)
  have c1: "placement_center vincenty_ft m i1 =
       Inr (real_of_int xa, real_of_int (1500 + pyint (d * pixels_per_foot m)))"
    using level_placement [OF p1] by (simp add: i1)
  have c2: "placement_center vincenty_ft m i2 = Inr (real_of_int xb, real_of_int 1500)"
    using level_placement [OF p2] by (simp add: i2)
  have one: "1 \<le> pyint (d * pixels_per_foot m)" using pyint_ge_one [OF dp] .
  have lt: "real_of_int 1500 < real_of_int (1500 + pyint (d * pixels_per_foot m))"
    using one by simp
  have lt': "pyint (real_of_int 1500) < pyint (real_of_int (1500 + pyint (d * pixels_per_foot m)))"
    unfolding pyint_of_int using one by simp
  have close: "\<bar>(real_of_int (1500 + pyint (d * pixels_per_foot m)) - real_of_int 1500)
                 - d * pixels_per_foot m\<bar> < 1"
    using pyint_close [of "d * pixels_per_foot m"] by simp
  show ?thesis
    using c1 c2 lt lt' close unfolding vd by blast
qed

theorem higher_latitude_is_placed_above_witness:
  "Mosaic_init planar_feet (Some two_photos) world0 two_photos =
     (Inr two_photos_mosaic, world0\<lparr>allocated := [mosaic_image two_photos_mosaic]\<rparr>)
   \<and> planar_feet (38.001, -123) (38.001, -123) = 0
   \<and> 1 \<le> planar_feet (38, -123) (38.001, -123)
   \<and> (\<exists>x1 y1 x2 y2.
         placement_center planar_feet two_photos_mosaic (photo 38 (-123) 100 0 0 0) = Inr (x1, y1)
       \<and> placement_center planar_feet two_photos_mosaic (photo 38.001 (-123) 100 0 0 0) = Inr (x2, y2)
       \<and> y2 < y1 \<and> pyint y2 < pyint y1
       \<and> \<bar>(y1 - y2) - vert_distance_between_latlong_points_in_feet planar_feet
             (38, -123) (38.001, -123) * pixels_per_foot two_photos_mosaic\<bar> < 1)"
proof -
  have i1: "photo 38 (-123) 100 0 0 0 = \<lparr>filename = ''a.jpg'', lat = 38, long = -123,
      altitude = 100, yaw = 0, pitch = 0, roll = 0\<rparr>" by (simp add: photo_def)
  have i2: "photo 38.001 (-123) 100 0 0 0 = \<lparr>filename = ''a.jpg'', lat = 38.001, long = -123,
      altitude = 100, yaw = 0, pitch = 0, roll = 0\<rparr>" by (simp add: photo_def)
  have im: "two_photos = [photo 38 (-123) 100 0 0 0, photo 38.001 (-123) 100 0 0 0]
      \<or> two_photos = [photo 38.001 (-123) 100 0 0 0, photo 38 (-123) 100 0 0 0]"
    by (simp add: two_photos_def)
  have z: "planar_feet (38.001, -123) (38.001, -123) = 0" by (simp add: planar_feet_self)
  have f: "1 \<le> planar_feet (38, -123) (38.001, -123)" by (simp add: planar_feet_def)
  from higher_latitude_is_placed_above [OF i1 i2 im Mosaic_init_two_photos z f] z f
  show ?thesis by (simp add: Mosaic_init_two_photos photo_def)
qed

text \<open>
  C10, as amended: on a mosaic with a non-negative scale, given a distance primitive
  that is never negative, the provisional centre of every image has x at least 2000 and
  y at least 1500, and an image with pitch and roll 0 has that provisional centre as its
  final centre.
\<close>

theorem center_not_left_of_or_above_anchor:
  assumes nonneg: "\<forall>p q. 0 \<le> vincenty_ft p q"
    and scale: "0 \<le> pixels_per_foot m"
    and init: "Mosaic_init vincenty_ft g w imgs = (Inr m, w')"
  shows "\<exists>x y. provisional_center vincenty_ft m img = Inr (x, y) \<and> 2000 \<le> x \<and> 1500 \<le> y
           \<and> (pitch img = 0 \<and> roll img = 0 \<longrightarrow>
                placement_center vincenty_ft m img = Inr (real_of_int x, real_of_int y))"
proof -
  note tl = Mosaic_init_Inr(3) [OF init]
  define x where "x = 2000 + pyint (horiz_distance_between_latlong_points_in_feet vincenty_ft
      (lat img, long img) (Max (lat ` set imgs), Min (long ` set imgs)) * pixels_per_foot m)"
  define y where "y = 1500 + pyint (vert_distance_between_latlong_points_in_feet vincenty_ft
      (lat img, long img) (Max (lat ` set imgs), Min (long ` set imgs)) * pixels_per_foot m)"
  have p: "provisional_center vincenty_ft m img = Inr (x, y)"
    by (simp add: provisional_center_def tl x_def y_def Let_def)
  have "0 \<le> horiz_distance_between_latlong_points_in_feet vincenty_ft
      (lat img, long img) (Max (lat ` set imgs), Min (long ` set imgs)) * pixels_per_foot m"
    using nonneg scale
    by (simp add: horiz_distance_between_latlong_points_in_feet_def
        distance_between_latlong_points_in_feet_def)
  then have x: "2000 \<le> x" unfolding x_def using pyint_nonneg by fastforce
  have "0 \<le> vert_distance_between_latlong_points_in_feet vincenty_ft
      (lat img, long img) (Max (lat ` set imgs), Min (long ` set imgs)) * pixels_per_foot m"
    using nonneg scale
    by (simp add: vert_distance_between_latlong_points_in_feet_def
        distance_between_latlong_points_in_feet_def)
  then have y: "1500 \<le> y" unfolding y_def using pyint_nonneg by fastforce
  have f: "pitch img = 0 \<and> roll img = 0 \<longrightarrow>
                placement_center vincenty_ft m img = Inr (real_of_int x, real_of_int y)"
    using p by (simp add: placement_center_def offset_zero_pitch offset_zero_roll yaw_step_def)
  show ?thesis using p x y f by blast
qed

theorem center_not_left_of_or_above_anchor_witness:
  "(\<forall>p q. 0 \<le> planar_feet p q) \<and> 0 \<le> pixels_per_foot two_photos_mosaic
   \<and> fst (Mosaic_init planar_feet (Some two_photos) world0 two_photos) = Inr two_photos_mosaic
   \<and> pitch (photo 38 (-123) 100 0 0 0) = 0 \<and> roll (photo 38 (-123) 100 0 0 0) = 0
   \<and> (\<exists>x y. provisional_center planar_feet two_photos_mosaic (photo 38 (-123) 100 0 0 0) = Inr (x, y)
          \<and> 2000 \<le> x \<and> 1500 \<le> y
          \<and> placement_center planar_feet two_photos_mosaic (photo 38 (-123) 100 0 0 0) =
              Inr (real_of_int x, real_of_int y))"
proof -
  have n: "\<forall>p q. 0 \<le> planar_feet p q" by (simp add: planar_feet_nonneg)
  have s: "0 \<le> pixels_per_foot two_photos_mosaic" by (simp add: two_photos_mosaic_def)
  have l: "pitch (photo 38 (-123) 100 0 0 0) = 0" "roll (photo 38 (-123) 100 0 0 0) = 0"
    by (simp_all add: photo_def)
  from center_not_left_of_or_above_anchor
         [OF n s Mosaic_init_two_photos, of "photo 38 (-123) 100 0 0 0"] n s l
  show ?thesis by (auto simp: Mosaic_init_two_photos)
qed

text \<open>
  C10 as stated fails: the two images of \<open>sunk_photos\<close>, at altitude -100 m, give the
  scale - 4000 / 590.5512, and the image at (38, -123), 364 feet below the top-left
  corner, gets the provisional and final centre (2000, - 965); the image at
  (38.001, -122.999), 288 feet right of the corner, gets x = 50.
\<close>

theorem negative_scale_places_center_above_anchor:
  "fst (Mosaic_init planar_feet (Some sunk_photos) world0 sunk_photos) = Inr sunk_mosaic
   \<and> provisional_center planar_feet sunk_mosaic (photo 38 (-123) (-100) 0 0 0) = Inr (2000, - 965)
   \<and> provisional_center planar_feet sunk_mosaic (photo 38.001 (-122.999) (-100) 0 0 0) = Inr (50, 1500)
   \<and> placement_center planar_feet sunk_mosaic (photo 38 (-123) (-100) 0 0 0) = Inr (2000, - 965)"
proof -
  have a: "pyint (364 * - (4000 / 590.5512)) = - 2465"
    by (rule pyint_neg_eqI) simp_all
  have b: "pyint (288 * - (4000 / 590.5512)) = - 1950"
    by (rule pyint_neg_eqI) simp_all
  have p1: "provisional_center planar_feet sunk_mosaic (photo 38 (-123) (-100) 0 0 0) = Inr (2000, - 965)"
    using a by (simp add: provisional_center_def sunk_mosaic_def photo_def Let_def pyint_zero
        horiz_distance_between_latlong_points_in_feet_def
        vert_distance_between_latlong_points_in_feet_def
        distance_between_latlong_points_in_feet_def planar_feet_def)
  have p2: "provisional_center planar_feet sunk_mosaic (photo 38.001 (-122.999) (-100) 0 0 0) = Inr (50, 1500)"
    using b by (simp add: provisional_center_def sunk_mosaic_def photo_def Let_def pyint_zero
        horiz_distance_between_latlong_points_in_feet_def
        vert_distance_between_latlong_points_in_feet_def
        distance_between_latlong_points_in_feet_def planar_feet_def)
  have c: "placement_center planar_feet sunk_mosaic (photo 38 (-123) (-100) 0 0 0) = Inr (2000, - 965)"
    using level_placement [OF p1] by (simp add: photo_def)
  show ?thesis using p1 p2 c by (simp add: Mosaic_init_sunk_photos)
qed

end
